theory Spec2Isabelle
  imports Complex_Main
begin

section \<open>The history analyzer of pbl-up\<close>

text \<open>
  A shallow embedding of \<^verbatim>\<open>src/core/history_analyzer.py\<close> (class
  \<^verbatim>\<open>HistoryAnalyzer\<close>). The analyzer owns no data: every method asks the
  database manager for a data frame and aggregates it.

  Conventions of the embedding:
  \<^item> a data frame is the list of its rows, in the order the database manager returned
    them; a column \<^verbatim>\<open>df['c']\<close> is \<open>map c df\<close>; \<^verbatim>\<open>df.empty\<close> is \<open>df = []\<close> and
    \<^verbatim>\<open>len(df)\<close> is \<open>length df\<close>;
  \<^item> Python floats are exact real numbers: rounding, NaN and infinities are not
    modelled, so every statement about a mean is a statement about the exact quotient;
  \<^item> a \<^verbatim>\<open>datetime\<close> is the number of microseconds since 0001-01-01T00:00:00, an
    integer between \<open>0\<close> and \<open>datetime_max\<close>; a \<^verbatim>\<open>timedelta\<close> is a number of
    microseconds;
  \<^item> an exception is the \<open>Inl\<close> branch of a sum; it leaves the method at once;
  \<^item> the effects of a method are explicit: a method takes the world and returns its
    result with the new world. The world holds the database manager, the trace of the
    queries sent to it, and the clock that \<^verbatim>\<open>datetime.now()\<close> reads.
\<close>

subsection \<open>Rows delivered by the database manager\<close>

type_synonym datetime = int

text \<open>
  Modelled from the spec: the row types of the three data frames. The database manager
  that builds them is not part of the analyzer; the analyzer reads the columns named
  below and the spec (section 3) gives their types.
\<close>

record system_sample =
  timestamp :: datetime
  cpu_percent :: real
  memory_percent :: real
  disk_percent :: real
  total_processes :: int

record process_sample =
  process_name :: string
  p_timestamp :: datetime
  p_cpu_percent :: real
  memory_mb :: real

record process_ranking =
  name :: string
  avg_cpu :: real
  avg_memory :: real
  sample_count :: nat

subsection \<open>Exceptions, the database manager and the world\<close>

datatype error =
    UpstreamQueryFailure string
  | OverflowError

text \<open>
  The database manager is a parameter of the analyzer (\<^verbatim>\<open>self.db_manager\<close>): three
  queries, each of which returns a data frame or raises.
\<close>

record database_manager =
  get_system_history :: "int \<Rightarrow> error + system_sample list"
  get_top_processes_by_cpu :: "int \<Rightarrow> error + process_ranking list"
  get_process_trend :: "string \<Rightarrow> error + process_sample list"

datatype query =
    SystemHistory int
  | TopProcessesByCpu int
  | ProcessTrend string

record world =
  db_manager :: database_manager
  queries :: "query list"
  now_readings :: "nat \<Rightarrow> datetime"
  reads :: nat

text \<open>A call of a database manager method: the answer, and the call added to the trace.\<close>

definition db_get_system_history ::
  "int \<Rightarrow> world \<Rightarrow> (error + system_sample list) \<times> world" where
  "db_get_system_history hours w =
     (get_system_history (db_manager w) hours,
      w\<lparr>queries := queries w @ [SystemHistory hours]\<rparr>)"

definition db_get_top_processes_by_cpu ::
  "int \<Rightarrow> world \<Rightarrow> (error + process_ranking list) \<times> world" where
  "db_get_top_processes_by_cpu limit w =
     (get_top_processes_by_cpu (db_manager w) limit,
      w\<lparr>queries := queries w @ [TopProcessesByCpu limit]\<rparr>)"

definition db_get_process_trend ::
  "string \<Rightarrow> world \<Rightarrow> (error + process_sample list) \<times> world" where
  "db_get_process_trend pname w =
     (get_process_trend (db_manager w) pname,
      w\<lparr>queries := queries w @ [ProcessTrend pname]\<rparr>)"

subsection \<open>The standard library: datetime\<close>

definition datetime_max :: datetime where
  "datetime_max = 315537897599999999"

text \<open>\<^verbatim>\<open>datetime.now()\<close>: the next reading of the clock.\<close>

definition datetime_now :: "world \<Rightarrow> datetime \<times> world" where
  "datetime_now w = (now_readings w (reads w), w\<lparr>reads := Suc (reads w)\<rparr>)"

text \<open>
  \<^verbatim>\<open>timedelta(hours=hours)\<close> for an integer: the days of the normalised value
  (\<open>hours div 24\<close>) must have magnitude at most 999999999, else OverflowError.
\<close>

definition timedelta_hours :: "int \<Rightarrow> error + int" where
  "timedelta_hours hours =
     (if - 999999999 \<le> hours div 24 \<and> hours div 24 \<le> 999999999
      then Inr (hours * 3600000000)
      else Inl OverflowError)"

text \<open>
  \<^verbatim>\<open>datetime - timedelta\<close>: OverflowError (date value out of range) when the result
  is not a datetime.
\<close>

definition datetime_sub :: "datetime \<Rightarrow> int \<Rightarrow> error + datetime" where
  "datetime_sub t td =
     (if 0 \<le> t - td \<and> t - td \<le> datetime_max then Inr (t - td) else Inl OverflowError)"

subsection \<open>pandas reductions of a column\<close>

text \<open>
  \<^verbatim>\<open>Series.mean()\<close> is the sum of the values divided by their count;
  \<^verbatim>\<open>Series.max()\<close> and \<^verbatim>\<open>Series.min()\<close> reduce with the order of the values. On a
  column without values pandas answers NaN, which the embedding has no value for:
  \<open>series_max\<close> and \<open>series_min\<close> have no equation there, and the analyzer calls
  the reductions behind its \<^verbatim>\<open>df.empty\<close> test only.
\<close>

definition series_sum :: "real list \<Rightarrow> real" where
  "series_sum xs = fold (\<lambda>x acc. acc + x) xs 0"

definition series_mean :: "real list \<Rightarrow> real" where
  "series_mean xs = series_sum xs / real (length xs)"

fun series_max :: "'a::linorder list \<Rightarrow> 'a" where
  "series_max (x # xs) = fold max xs x"

fun series_min :: "'a::linorder list \<Rightarrow> 'a" where
  "series_min (x # xs) = fold min xs x"

text \<open>\<^verbatim>\<open>int(x)\<close> of a float: the fractional part is dropped, towards zero.\<close>

definition py_int :: "real \<Rightarrow> int" where
  "py_int x = (if 0 \<le> x then \<lfloor>x\<rfloor> else \<lceil>x\<rceil>)"

subsection \<open>get_system_summary\<close>

record system_summary =
  cpu_avg :: real
  cpu_max :: real
  memory_avg :: real
  memory_max :: real
  disk_avg :: real
  disk_max :: real
  processes_avg :: int
  start_time :: datetime
  end_time :: datetime
  data_points :: nat

text \<open>
  The dictionary of the empty branch is built entry by entry: the clock is read, the
  timedelta is built and subtracted (either may raise), and the clock is read again for
  \<^verbatim>\<open>'end_time'\<close>.
\<close>

definition get_system_summary ::
  "int \<Rightarrow> world \<Rightarrow> (error + system_summary) \<times> world" where
  "get_system_summary hours w =
     (case db_get_system_history hours w of
        (Inl e, w1) \<Rightarrow> (Inl e, w1)
      | (Inr df, w1) \<Rightarrow>
          if df = [] then
            (case datetime_now w1 of
               (now1, w2) \<Rightarrow>
                 (case timedelta_hours hours of
                    Inl e \<Rightarrow> (Inl e, w2)
                  | Inr td \<Rightarrow>
                      (case datetime_sub now1 td of
                         Inl e \<Rightarrow> (Inl e, w2)
                       | Inr start \<Rightarrow>
                           (case datetime_now w2 of
                              (now2, w3) \<Rightarrow>
                                (Inr \<lparr>cpu_avg = 0, cpu_max = 0,
                                      memory_avg = 0, memory_max = 0,
                                      disk_avg = 0, disk_max = 0,
                                      processes_avg = 0,
                                      start_time = start, end_time = now2,
                                      data_points = 0\<rparr>, w3)))))
          else
            (Inr \<lparr>cpu_avg = series_mean (map cpu_percent df),
                  cpu_max = series_max (map cpu_percent df),
                  memory_avg = series_mean (map memory_percent df),
                  memory_max = series_max (map memory_percent df),
                  disk_avg = series_mean (map disk_percent df),
                  disk_max = series_max (map disk_percent df),
                  processes_avg =
                    py_int (series_mean (map (\<lambda>r. real_of_int (total_processes r)) df)),
                  start_time = series_min (map timestamp df),
                  end_time = series_max (map timestamp df),
                  data_points = length df\<rparr>, w1))"

subsection \<open>get_top_processes\<close>

definition get_top_processes ::
  "int \<Rightarrow> world \<Rightarrow> (error + process_ranking list) \<times> world" where
  "get_top_processes limit w = db_get_top_processes_by_cpu limit w"

subsection \<open>get_process_analysis\<close>

record process_analysis =
  an_name :: string
  an_cpu_avg :: real
  an_cpu_max :: real
  an_memory_avg :: real
  an_memory_max :: real
  an_data_points :: nat
  trend_data :: "process_sample list"

definition get_process_analysis ::
  "string \<Rightarrow> world \<Rightarrow> (error + process_analysis) \<times> world" where
  "get_process_analysis pname w =
     (case db_get_process_trend pname w of
        (Inl e, w1) \<Rightarrow> (Inl e, w1)
      | (Inr df, w1) \<Rightarrow>
          if df = [] then
            (Inr \<lparr>an_name = pname,
                  an_cpu_avg = 0, an_cpu_max = 0,
                  an_memory_avg = 0, an_memory_max = 0,
                  an_data_points = 0,
                  trend_data = []\<rparr>, w1)
          else
            (Inr \<lparr>an_name = pname,
                  an_cpu_avg = series_mean (map p_cpu_percent df),
                  an_cpu_max = series_max (map p_cpu_percent df),
                  an_memory_avg = series_mean (map memory_mb df),
                  an_memory_max = series_max (map memory_mb df),
                  an_data_points = length df,
                  trend_data = df\<rparr>, w1))"

subsection \<open>The charts\<close>

text \<open>
  A figure is modelled by what it shows: its axes in creation order, each the list of the
  artists drawn on it in call order. An artist is a text placed at a position
  (\<^verbatim>\<open>ax.text(x, y, s)\<close>), a line through points (\<^verbatim>\<open>ax.plot(x, y, fmt, label=...)\<close>) or
  a row of bars (\<^verbatim>\<open>ax.bar(x, height)\<close>). Axis labels, titles, grid, ticks, legend, colours
  and the height annotations above the bars are decoration computed from the same data
  and are left out.
\<close>

datatype artist =
    Text real real string
  | Line "datetime list" "real list" string string
  | Bar "string list" "real list"

type_synonym figure = "artist list list"

definition generate_cpu_usage_chart :: "int \<Rightarrow> world \<Rightarrow> (error + figure) \<times> world" where
  "generate_cpu_usage_chart hours w =
     (case db_get_system_history hours w of
        (Inl e, w1) \<Rightarrow> (Inl e, w1)
      | (Inr df, w1) \<Rightarrow>
          if df = [] then (Inr [[Text (1/2) (1/2) ''No data available'']], w1)
          else (Inr [[Line (map timestamp df) (map cpu_percent df) ''b-'' '''']], w1))"

definition generate_memory_usage_chart :: "int \<Rightarrow> world \<Rightarrow> (error + figure) \<times> world" where
  "generate_memory_usage_chart hours w =
     (case db_get_system_history hours w of
        (Inl e, w1) \<Rightarrow> (Inl e, w1)
      | (Inr df, w1) \<Rightarrow>
          if df = [] then (Inr [[Text (1/2) (1/2) ''No data available'']], w1)
          else (Inr [[Line (map timestamp df) (map memory_percent df) ''r-'' '''']], w1))"

definition generate_top_processes_chart :: "int \<Rightarrow> world \<Rightarrow> (error + figure) \<times> world" where
  "generate_top_processes_chart limit w =
     (case get_top_processes limit w of
        (Inl e, w1) \<Rightarrow> (Inl e, w1)
      | (Inr df, w1) \<Rightarrow>
          if df = [] then (Inr [[Text (1/2) (1/2) ''No data available'']], w1)
          else (Inr [[Bar (map name df) (map avg_cpu df)]], w1))"

definition generate_process_trend_chart ::
  "string \<Rightarrow> world \<Rightarrow> (error + figure) \<times> world" where
  "generate_process_trend_chart pname w =
     (case db_get_process_trend pname w of
        (Inl e, w1) \<Rightarrow> (Inl e, w1)
      | (Inr df, w1) \<Rightarrow>
          if df = [] then
            (Inr [[Text (1/2) (1/2) (''No data available for '' @ pname)]], w1)
          else
            (Inr [[Line (map p_timestamp df) (map p_cpu_percent df) ''b-'' ''CPU Usage''],
                  [Line (map p_timestamp df) (map memory_mb df) ''r-'' ''Memory Usage'']],
             w1))"

subsection \<open>The words of the specification\<close>


definition truncation :: "real \<Rightarrow> int" where
  "truncation x = (if x < 0 then - \<lfloor>- x\<rfloor> else \<lfloor>x\<rfloor>)"

text \<open>A ranking is in descending order of average CPU.\<close>

definition descending_by_avg_cpu :: "process_ranking list \<Rightarrow> bool" where
  "descending_by_avg_cpu rs = sorted_wrt (\<lambda>a b. avg_cpu b \<le> avg_cpu a) rs"


text \<open>Calling a method twice in a row, the second call in the world the first one left.\<close>

definition call_twice :: "(world \<Rightarrow> 'a \<times> world) \<Rightarrow> world \<Rightarrow> 'a \<times> 'a" where
  "call_twice m w = (case m w of (r1, w1) \<Rightarrow> (case m w1 of (r2, w2) \<Rightarrow> (r1, r2)))"

subsection \<open>Example worlds\<close>

text \<open>
  Three system samples as in the end-to-end scenario of the specification, a ranking
  of three processes, and two samples of the process python; the clock starts at
  2026-11-04T12:00:00 and advances one millisecond per reading.
\<close>

definition scenario_samples :: "system_sample list" where
  "scenario_samples =
     [\<lparr>timestamp = 63929386800000000, cpu_percent = 10, memory_percent = 50,
        disk_percent = 1, total_processes = 100\<rparr>,
      \<lparr>timestamp = 63929388600000000, cpu_percent = 20, memory_percent = 50,
        disk_percent = 2, total_processes = 102\<rparr>,
      \<lparr>timestamp = 63929390400000000, cpu_percent = 30, memory_percent = 50,
        disk_percent = 3, total_processes = 104\<rparr>]"

definition scenario_ranking :: "process_ranking list" where
  "scenario_ranking =
     [\<lparr>name = ''chrome'', avg_cpu = 40, avg_memory = 900, sample_count = 12\<rparr>,
      \<lparr>name = ''python'', avg_cpu = 25, avg_memory = 300, sample_count = 12\<rparr>,
      \<lparr>name = ''bash'', avg_cpu = 1, avg_memory = 5, sample_count = 7\<rparr>]"

definition scenario_trend :: "process_sample list" where
  "scenario_trend =
     [\<lparr>process_name = ''python'', p_timestamp = 63929386800000000,
        p_cpu_percent = 20, memory_mb = 280\<rparr>,
      \<lparr>process_name = ''python'', p_timestamp = 63929388600000000,
        p_cpu_percent = 30, memory_mb = 320\<rparr>]"

definition scenario_db :: database_manager where
  "scenario_db =
     \<lparr>get_system_history = (\<lambda>hours. Inr scenario_samples),
      get_top_processes_by_cpu = (\<lambda>limit. Inr (take (nat limit) scenario_ranking)),
      get_process_trend =
        (\<lambda>pname. Inr (if pname = ''python'' then scenario_trend else []))\<rparr>"

definition empty_db :: database_manager where
  "empty_db =
     \<lparr>get_system_history = (\<lambda>hours. Inr []),
      get_top_processes_by_cpu = (\<lambda>limit. Inr []),
      get_process_trend = (\<lambda>pname. Inr [])\<rparr>"

definition ticking_clock :: "nat \<Rightarrow> datetime" where
  "ticking_clock k = 63929390400000000 + 1000 * int k"

definition frozen_clock :: "nat \<Rightarrow> datetime" where
  "frozen_clock k = 63929390400000000"

definition scenario_world :: world where
  "scenario_world =
     \<lparr>db_manager = scenario_db, queries = [], now_readings = ticking_clock, reads = 0\<rparr>"

definition empty_world :: world where
  "empty_world =
     \<lparr>db_manager = empty_db, queries = [], now_readings = ticking_clock, reads = 0\<rparr>"

definition frozen_world :: world where
  "frozen_world =
     \<lparr>db_manager = empty_db, queries = [], now_readings = frozen_clock, reads = 0\<rparr>"

section \<open>Verification\<close>

subsection \<open>The reductions compute what the specification names\<close>







lemma truncation_towards_zero:
  "\<bar>real_of_int (truncation x)\<bar> \<le> \<bar>x\<bar> \<and> \<bar>x\<bar> < \<bar>real_of_int (truncation x)\<bar> + 1"
  unfolding truncation_def by (cases "x < 0") (simp_all; linarith)+





subsection \<open>get_system_summary on samples\<close>

lemma get_system_summary_nonempty_unfold:
  assumes "get_system_history (db_manager w) hours = Inr df" and "df \<noteq> []"
  shows "get_system_summary hours w =
     (Inr \<lparr>cpu_avg = series_mean (map cpu_percent df),
           cpu_max = series_max (map cpu_percent df),
           memory_avg = series_mean (map memory_percent df),
           memory_max = series_max (map memory_percent df),
           disk_avg = series_mean (map disk_percent df),
           disk_max = series_max (map disk_percent df),
           processes_avg =
             py_int (series_mean (map (\<lambda>r. real_of_int (total_processes r)) df)),
           start_time = series_min (map timestamp df),
           end_time = series_max (map timestamp df),
           data_points = length df\<rparr>,
      w\<lparr>queries := queries w @ [SystemHistory hours]\<rparr>)"
  using assms by (simp add: get_system_summary_def db_get_system_history_def)



subsection \<open>get_system_summary without samples\<close>

lemma get_system_summary_empty_unfold:
  assumes "get_system_history (db_manager w) hours = Inr []"
  shows "fst (get_system_summary hours w) =
     (case timedelta_hours hours of
        Inl e \<Rightarrow> Inl e
      | Inr td \<Rightarrow>
          (case datetime_sub (now_readings w (reads w)) td of
             Inl e \<Rightarrow> Inl e
           | Inr start \<Rightarrow>
               Inr \<lparr>cpu_avg = 0, cpu_max = 0, memory_avg = 0, memory_max = 0,
                    disk_avg = 0, disk_max = 0, processes_avg = 0,
                    start_time = start, end_time = now_readings w (Suc (reads w)),
                    data_points = 0\<rparr>))"
  using assms
  by (simp add: get_system_summary_def db_get_system_history_def datetime_now_def
      split: sum.splits)

text \<open>
  Claim C2, as amended. When the database manager answers the query with no samples and
  the window is positive and does not reach back before the first datetime (the clock
  reading is a datetime and \<open>hours * 3600000000\<close> microseconds do not exceed it),
  the method does not raise: it returns the summary with all six float fields \<open>0\<close>,
  \<open>processes_avg\<close> and \<open>data_points\<close> \<open>0\<close>, \<open>start_time\<close> the first clock
  reading minus the window, and \<open>end_time\<close> the second clock reading. So
  \<open>end_time - start_time\<close> is the window plus the time between the two readings.
\<close>

theorem empty_history_zero_filled_summary:
  assumes "get_system_history (db_manager w) hours = Inr []"
    and "0 < hours"
    and "hours * 3600000000 \<le> now_readings w (reads w)"
    and "now_readings w (reads w) \<le> datetime_max"
  shows "fst (get_system_summary hours w) =
     Inr \<lparr>cpu_avg = 0, cpu_max = 0, memory_avg = 0, memory_max = 0,
          disk_avg = 0, disk_max = 0, processes_avg = 0,
          start_time = now_readings w (reads w) - hours * 3600000000,
          end_time = now_readings w (Suc (reads w)),
          data_points = 0\<rparr>"
proof -
  have "hours * 3600000000 \<le> datetime_max"
    using assms(3,4) by linarith
  then have "hours div 24 \<le> 999999999"
    unfolding datetime_max_def by linarith
  moreover have "- 999999999 \<le> hours div 24"
    using assms(2) by linarith
  ultimately have td: "timedelta_hours hours = Inr (hours * 3600000000)"
    by (simp add: timedelta_hours_def)
  have "0 \<le> hours * 3600000000"
    using assms(2) by simp
  then have sub: "datetime_sub (now_readings w (reads w)) (hours * 3600000000) =
      Inr (now_readings w (reads w) - hours * 3600000000)"
    using assms(3,4) by (simp add: datetime_sub_def)
  show ?thesis
    unfolding get_system_summary_empty_unfold [OF assms(1)] by (simp add: td sub)
qed

theorem empty_history_zero_filled_summary_witness:
  "get_system_history (db_manager empty_world) 24 = Inr []
   \<and> (0::int) < 24
   \<and> 24 * 3600000000 \<le> now_readings empty_world (reads empty_world)
   \<and> now_readings empty_world (reads empty_world) \<le> datetime_max
   \<and> fst (get_system_summary 24 empty_world) =
       Inr \<lparr>cpu_avg = 0, cpu_max = 0, memory_avg = 0, memory_max = 0,
            disk_avg = 0, disk_max = 0, processes_avg = 0,
            start_time = 63929304000000000, end_time = 63929390400001000,
            data_points = 0\<rparr>"
proof -
  have h1: "get_system_history (db_manager empty_world) 24 = Inr []"
    by (simp add: empty_world_def empty_db_def)
  have h2: "(0::int) < 24" by simp
  have h3: "24 * 3600000000 \<le> now_readings empty_world (reads empty_world)"
    by (simp add: empty_world_def ticking_clock_def)
  have h4: "now_readings empty_world (reads empty_world) \<le> datetime_max"
    by (simp add: empty_world_def ticking_clock_def datetime_max_def)
  have "fst (get_system_summary 24 empty_world) =
       Inr \<lparr>cpu_avg = 0, cpu_max = 0, memory_avg = 0, memory_max = 0,
            disk_avg = 0, disk_max = 0, processes_avg = 0,
            start_time = 63929304000000000, end_time = 63929390400001000,
            data_points = 0\<rparr>"
    unfolding empty_history_zero_filled_summary [OF h1 h2 h3 h4]
    by (simp add: empty_world_def ticking_clock_def)
  with h1 h2 h3 h4 show ?thesis by blast
qed

text \<open>
  The claim as stated, for every positive window, fails: a window of 18000000 hours
  starts before year 1 when the clock reads 2026-11-04, and the subtraction raises
  OverflowError.
\<close>

theorem empty_history_overflow_counterexample:
  "(0::int) < 18000000
   \<and> get_system_history (db_manager empty_world) 18000000 = Inr []
   \<and> fst (get_system_summary 18000000 empty_world) = Inl OverflowError"
  by (simp add: get_system_summary_def db_get_system_history_def datetime_now_def
      timedelta_hours_def datetime_sub_def empty_world_def empty_db_def ticking_clock_def)

subsection \<open>No validation of the arguments\<close>

text \<open>
  Claim C3, as amended. The analyzer does not validate its arguments: whatever the
  window, the limit or the process name (non-positive and empty ones included), each of
  \<open>get_system_summary\<close>, \<open>get_top_processes\<close> and \<open>get_process_analysis\<close> sends
  exactly one query to the database manager, carrying the argument unchanged.
\<close>

theorem arguments_forwarded_unchecked:
  "queries (snd (get_system_summary hours w)) = queries w @ [SystemHistory hours]
   \<and> queries (snd (get_top_processes limit w)) = queries w @ [TopProcessesByCpu limit]
   \<and> queries (snd (get_process_analysis pname w)) = queries w @ [ProcessTrend pname]"
proof (intro conjI)
  show "queries (snd (get_system_summary hours w)) = queries w @ [SystemHistory hours]"
    by (simp add: get_system_summary_def db_get_system_history_def datetime_now_def
        split: sum.splits)
  show "queries (snd (get_top_processes limit w)) = queries w @ [TopProcessesByCpu limit]"
    by (simp add: get_top_processes_def db_get_top_processes_by_cpu_def)
  show "queries (snd (get_process_analysis pname w)) = queries w @ [ProcessTrend pname]"
    by (simp add: get_process_analysis_def db_get_process_trend_def split: sum.splits)
qed

text \<open>
  The claim as stated, that such arguments are rejected with an error and no query is
  sent, fails: a window of \<open>0\<close>, a limit of \<open>-1\<close> and the empty process name all
  reach the database manager, and the methods return results built from its answers.
\<close>

theorem invalid_input_rejected_counterexample:
  "fst (get_system_summary 0 frozen_world) =
     Inr \<lparr>cpu_avg = 0, cpu_max = 0, memory_avg = 0, memory_max = 0,
          disk_avg = 0, disk_max = 0, processes_avg = 0,
          start_time = 63929390400000000, end_time = 63929390400000000,
          data_points = 0\<rparr>
   \<and> queries (snd (get_system_summary 0 frozen_world)) = [SystemHistory 0]
   \<and> fst (get_top_processes (- 1) frozen_world) = Inr []
   \<and> queries (snd (get_top_processes (- 1) frozen_world)) = [TopProcessesByCpu (- 1)]
   \<and> fst (get_process_analysis [] frozen_world) =
       Inr \<lparr>an_name = [], an_cpu_avg = 0, an_cpu_max = 0, an_memory_avg = 0,
            an_memory_max = 0, an_data_points = 0, trend_data = []\<rparr>
   \<and> queries (snd (get_process_analysis [] frozen_world)) = [ProcessTrend []]"
  by (simp add: get_system_summary_def db_get_system_history_def datetime_now_def
      timedelta_hours_def datetime_sub_def get_top_processes_def
      db_get_top_processes_by_cpu_def get_process_analysis_def db_get_process_trend_def
      frozen_world_def empty_db_def frozen_clock_def datetime_max_def)

subsection \<open>Calling a method twice\<close>

lemma call_twice_same_answer:
  assumes "\<And>v. fst (m v) = f (db_manager v)" and "\<And>v. db_manager (snd (m v)) = db_manager v"
  shows "fst (call_twice m w) = snd (call_twice m w)"
proof -
  obtain r1 w1 where m1: "m w = (r1, w1)" by (cases "m w")
  obtain r2 w2 where m2: "m w1 = (r2, w2)" by (cases "m w1")
  have "r1 = f (db_manager w)" using assms(1) [of w] m1 by simp
  moreover have "db_manager w1 = db_manager w" using assms(2) [of w] m1 by simp
  moreover have "r2 = f (db_manager w1)" using assms(1) [of w1] m2 by simp
  ultimately show ?thesis by (simp add: call_twice_def m1 m2)
qed

lemma get_top_processes_twice:
  "fst (call_twice (get_top_processes limit) w) = snd (call_twice (get_top_processes limit) w)"
  by (rule call_twice_same_answer [where f = "\<lambda>d. get_top_processes_by_cpu d limit"])
    (simp_all add: get_top_processes_def db_get_top_processes_by_cpu_def)

lemma get_process_analysis_twice:
  "fst (call_twice (get_process_analysis pname) w) =
   snd (call_twice (get_process_analysis pname) w)"
  by (rule call_twice_same_answer [where f = "\<lambda>d. fst (get_process_analysis pname
        \<lparr>db_manager = d, queries = [], now_readings = (\<lambda>k. 0), reads = 0\<rparr>)"])
    (simp_all add: get_process_analysis_def db_get_process_trend_def split: sum.splits)

lemma generate_cpu_usage_chart_twice:
  "fst (call_twice (generate_cpu_usage_chart hours) w) =
   snd (call_twice (generate_cpu_usage_chart hours) w)"
  by (rule call_twice_same_answer [where f = "\<lambda>d. fst (generate_cpu_usage_chart hours
        \<lparr>db_manager = d, queries = [], now_readings = (\<lambda>k. 0), reads = 0\<rparr>)"])
    (simp_all add: generate_cpu_usage_chart_def db_get_system_history_def split: sum.splits)

lemma generate_memory_usage_chart_twice:
  "fst (call_twice (generate_memory_usage_chart hours) w) =
   snd (call_twice (generate_memory_usage_chart hours) w)"
  by (rule call_twice_same_answer [where f = "\<lambda>d. fst (generate_memory_usage_chart hours
        \<lparr>db_manager = d, queries = [], now_readings = (\<lambda>k. 0), reads = 0\<rparr>)"])
    (simp_all add: generate_memory_usage_chart_def db_get_system_history_def split: sum.splits)

lemma generate_top_processes_chart_twice:
  "fst (call_twice (generate_top_processes_chart limit) w) =
   snd (call_twice (generate_top_processes_chart limit) w)"
  by (rule call_twice_same_answer [where f = "\<lambda>d. fst (generate_top_processes_chart limit
        \<lparr>db_manager = d, queries = [], now_readings = (\<lambda>k. 0), reads = 0\<rparr>)"])
    (simp_all add: generate_top_processes_chart_def get_top_processes_def
      db_get_top_processes_by_cpu_def split: sum.splits)

lemma generate_process_trend_chart_twice:
  "fst (call_twice (generate_process_trend_chart pname) w) =
   snd (call_twice (generate_process_trend_chart pname) w)"
  by (rule call_twice_same_answer [where f = "\<lambda>d. fst (generate_process_trend_chart pname
        \<lparr>db_manager = d, queries = [], now_readings = (\<lambda>k. 0), reads = 0\<rparr>)"])
    (simp_all add: generate_process_trend_chart_def db_get_process_trend_def split: sum.splits)

lemma get_system_summary_world:
  "db_manager (snd (get_system_summary hours w)) = db_manager w
   \<and> now_readings (snd (get_system_summary hours w)) = now_readings w"
  by (simp add: get_system_summary_def db_get_system_history_def datetime_now_def
      split: sum.splits)

lemma get_system_summary_upstream_failure:
  assumes "get_system_history (db_manager w) hours = Inl e"
  shows "fst (get_system_summary hours w) = Inl e"
  using assms by (simp add: get_system_summary_def db_get_system_history_def)

lemma get_system_summary_same_answer:
  assumes db: "db_manager v = db_manager w"
    and clock: "get_system_history (db_manager w) hours \<noteq> Inr []
      \<or> (now_readings v (reads v) = now_readings w (reads w)
          \<and> now_readings v (Suc (reads v)) = now_readings w (Suc (reads w)))"
  shows "fst (get_system_summary hours v) = fst (get_system_summary hours w)"
proof (cases "get_system_history (db_manager w) hours")
  case (Inl e)
  then show ?thesis
    using db by (simp add: get_system_summary_upstream_failure)
next
  case (Inr df)
  show ?thesis
  proof (cases "df = []")
    case True
    with Inr clock have first: "now_readings v (reads v) = now_readings w (reads w)"
      and second: "now_readings v (Suc (reads v)) = now_readings w (Suc (reads w))"
      by simp_all
    have ev: "get_system_history (db_manager v) hours = Inr []"
      using Inr True db by simp
    have ew: "get_system_history (db_manager w) hours = Inr []"
      using Inr True by simp
    show ?thesis
      unfolding get_system_summary_empty_unfold [OF ev]
        get_system_summary_empty_unfold [OF ew] first second ..
  next
    case False
    have "get_system_history (db_manager v) hours = Inr df"
      using Inr db by simp
    then show ?thesis
      using Inr False by (simp add: get_system_summary_nonempty_unfold)
  qed
qed

lemma get_system_summary_twice:
  assumes "get_system_history (db_manager w) hours \<noteq> Inr []
      \<or> (\<forall>k. now_readings w k = now_readings w 0)"
  shows "fst (call_twice (get_system_summary hours) w) =
         snd (call_twice (get_system_summary hours) w)"
proof -
  obtain r1 w1 where m1: "get_system_summary hours w = (r1, w1)"
    by (cases "get_system_summary hours w")
  obtain r2 w2 where m2: "get_system_summary hours w1 = (r2, w2)"
    by (cases "get_system_summary hours w1")
  have db: "db_manager w1 = db_manager w" and nr: "now_readings w1 = now_readings w"
    using get_system_summary_world [of hours w] m1 by simp_all
  have "get_system_history (db_manager w) hours \<noteq> Inr []
      \<or> (now_readings w1 (reads w1) = now_readings w (reads w)
          \<and> now_readings w1 (Suc (reads w1)) = now_readings w (Suc (reads w)))"
    using assms nr by metis
  from get_system_summary_same_answer [OF db this]
  have "r2 = r1" using m1 m2 by simp
  then show ?thesis by (simp add: call_twice_def m1 m2)
qed

text \<open>
  Claim C4, as amended. Calling a method twice with the same argument while the
  database manager answers the same yields the same output for \<open>get_top_processes\<close>,
  \<open>get_process_analysis\<close> and the four charts (compared by what they show); for
  \<open>get_system_summary\<close> it does so when the answer is not the empty data frame, or
  when the clock stands still. On an empty data frame the summary also depends on the
  clock, through \<open>start_time\<close> and \<open>end_time\<close>.
\<close>

theorem repeated_call_same_output:
  "fst (call_twice (get_top_processes limit) w) = snd (call_twice (get_top_processes limit) w)
   \<and> fst (call_twice (get_process_analysis pname) w) =
       snd (call_twice (get_process_analysis pname) w)
   \<and> fst (call_twice (generate_cpu_usage_chart hours) w) =
       snd (call_twice (generate_cpu_usage_chart hours) w)
   \<and> fst (call_twice (generate_memory_usage_chart hours) w) =
       snd (call_twice (generate_memory_usage_chart hours) w)
   \<and> fst (call_twice (generate_top_processes_chart limit) w) =
       snd (call_twice (generate_top_processes_chart limit) w)
   \<and> fst (call_twice (generate_process_trend_chart pname) w) =
       snd (call_twice (generate_process_trend_chart pname) w)
   \<and> (get_system_history (db_manager w) hours \<noteq> Inr []
        \<longrightarrow> fst (call_twice (get_system_summary hours) w) =
            snd (call_twice (get_system_summary hours) w))
   \<and> ((\<forall>k. now_readings w k = now_readings w 0)
        \<longrightarrow> fst (call_twice (get_system_summary hours) w) =
            snd (call_twice (get_system_summary hours) w))"
  using get_top_processes_twice get_process_analysis_twice generate_cpu_usage_chart_twice
    generate_memory_usage_chart_twice generate_top_processes_chart_twice
    generate_process_trend_chart_twice get_system_summary_twice
  by blast

theorem repeated_call_same_output_witness:
  "get_system_history (db_manager scenario_world) 24 \<noteq> Inr []
   \<and> fst (call_twice (get_system_summary 24) scenario_world) =
       snd (call_twice (get_system_summary 24) scenario_world)
   \<and> (\<forall>k. now_readings frozen_world k = now_readings frozen_world 0)
   \<and> fst (call_twice (get_system_summary 24) frozen_world) =
       snd (call_twice (get_system_summary 24) frozen_world)"
proof -
  have h1: "get_system_history (db_manager scenario_world) 24 \<noteq> Inr []"
    by (simp add: scenario_world_def scenario_db_def scenario_samples_def)
  have h2: "\<forall>k. now_readings frozen_world k = now_readings frozen_world 0"
    by (simp add: frozen_world_def frozen_clock_def)
  from repeated_call_same_output [of 5 scenario_world "''python''" 24] h1
  have c1: "fst (call_twice (get_system_summary 24) scenario_world) =
       snd (call_twice (get_system_summary 24) scenario_world)"
    by blast
  from repeated_call_same_output [of 5 frozen_world "''python''" 24] h2
  have c2: "fst (call_twice (get_system_summary 24) frozen_world) =
       snd (call_twice (get_system_summary 24) frozen_world)"
    by blast
  from h1 c1 h2 c2 show ?thesis by blast
qed

text \<open>
  The claim as stated, for every method and every input, fails: with an empty history
  and a running clock two calls of \<open>get_system_summary 24\<close> differ, although the
  database manager is unchanged.
\<close>

theorem repeated_call_same_output_counterexample:
  "db_manager (snd (get_system_summary 24 empty_world)) = db_manager empty_world
   \<and> fst (call_twice (get_system_summary 24) empty_world) \<noteq>
       snd (call_twice (get_system_summary 24) empty_world)"
  by (simp add: call_twice_def get_system_summary_def db_get_system_history_def
      datetime_now_def timedelta_hours_def datetime_sub_def empty_world_def empty_db_def
      ticking_clock_def datetime_max_def)

subsection \<open>get_process_analysis\<close>

text \<open>
  Claim C5. When the database manager answers the trend query for a process name with
  no samples, \<open>get_process_analysis\<close> does not raise: it returns the analysis with
  that name, the four statistics \<open>0\<close>, \<open>an_data_points\<close> \<open>0\<close> and an empty trend.
\<close>

theorem get_process_analysis_no_samples:
  assumes "get_process_trend (db_manager w) pname = Inr []"
  shows "fst (get_process_analysis pname w) =
     Inr \<lparr>an_name = pname, an_cpu_avg = 0, an_cpu_max = 0, an_memory_avg = 0,
          an_memory_max = 0, an_data_points = 0, trend_data = []\<rparr>"
  using assms by (simp add: get_process_analysis_def db_get_process_trend_def)

theorem get_process_analysis_no_samples_witness:
  "get_process_trend (db_manager scenario_world) ''ghost'' = Inr []
   \<and> fst (get_process_analysis ''ghost'' scenario_world) =
       Inr \<lparr>an_name = ''ghost'', an_cpu_avg = 0, an_cpu_max = 0, an_memory_avg = 0,
            an_memory_max = 0, an_data_points = 0, trend_data = []\<rparr>"
proof -
  have h: "get_process_trend (db_manager scenario_world) ''ghost'' = Inr []"
    by (simp add: scenario_world_def scenario_db_def)
  from h get_process_analysis_no_samples [OF h] show ?thesis by simp
qed




subsection \<open>get_top_processes\<close>

text \<open>
  Claim C7. For a positive limit, if the ranking query of the database manager answers
  with at most \<open>limit\<close> entries in descending order of average CPU, then
  \<open>get_top_processes\<close> returns exactly that answer: the same entries in the same
  order, at most \<open>limit\<close> of them, nothing added, removed or altered.
\<close>

theorem get_top_processes_pass_through:
  assumes "0 < limit"
    and "get_top_processes_by_cpu (db_manager w) limit = Inr rs"
    and "descending_by_avg_cpu rs"
    and "int (length rs) \<le> limit"
  shows "\<exists>out. fst (get_top_processes limit w) = Inr out \<and> out = rs
           \<and> int (length out) \<le> limit \<and> descending_by_avg_cpu out"
  using assms by (simp add: get_top_processes_def db_get_top_processes_by_cpu_def)

theorem get_top_processes_pass_through_witness:
  "(0::int) < 5
   \<and> get_top_processes_by_cpu (db_manager scenario_world) 5 = Inr scenario_ranking
   \<and> descending_by_avg_cpu scenario_ranking
   \<and> int (length scenario_ranking) \<le> 5
   \<and> (\<exists>out. fst (get_top_processes 5 scenario_world) = Inr out \<and> out = scenario_ranking
           \<and> int (length out) \<le> 5 \<and> descending_by_avg_cpu out)"
proof -
  have h1: "(0::int) < 5" by simp
  have h2: "get_top_processes_by_cpu (db_manager scenario_world) 5 = Inr scenario_ranking"
    by (simp add: scenario_world_def scenario_db_def scenario_ranking_def)
  have h3: "descending_by_avg_cpu scenario_ranking"
    by (simp add: descending_by_avg_cpu_def scenario_ranking_def)
  have h4: "int (length scenario_ranking) \<le> 5"
    by (simp add: scenario_ranking_def)
  from h1 h2 h3 h4 get_top_processes_pass_through [OF h1 h2 h3 h4] show ?thesis
    by blast
qed

subsection \<open>Bounds on the averages\<close>






subsection \<open>The process trend chart\<close>




end
